theory Spec2Isabelle
  imports Main "HOL-Library.AList"
begin

section \<open>Export and import of the Local AI package (localai\_cli.py)\<close>

text \<open>
  The program is a command line tool that works on the file system and on Docker through
  child processes. The embedding makes these effects explicit:
  \<^item> the file system below the working directory is a tree (\<open>node\<close>); a path is the list of
    its components, relative to the working directory;
  \<^item> every \<open>subprocess.run\<close> appends its argument vector to \<open>trace\<close>, every \<open>print\<close> appends
    a message to \<open>out\<close>;
  \<^item> an exception is a value: an operation returns \<open>Inl e\<close> together with the world reached
    when \<open>e\<close> was raised. Nothing in localai\_cli.py catches an exception;
  \<^item> what the program cannot decide itself (the Python library's codecs and the behaviour of
    Docker) is a field of the record \<open>platform\<close>, about which nothing is assumed.
  Strings are lists of characters with code points below 256.
\<close>

subsection \<open>Python string operations used by the program\<close>

text \<open>\<open>str.isspace\<close> on one character (code points below 256).\<close>

definition py_isspace :: "char \<Rightarrow> bool" where
  "py_isspace c = (of_char c \<in> {9, 10, 11, 12, 13, 28, 29, 30, 31, 32, 133, 160 :: nat})"

text \<open>\<open>s.split()\<close>: the maximal runs of characters that are not whitespace.\<close>

fun split_ws :: "string \<Rightarrow> string \<Rightarrow> string list" where
  "split_ws cur [] = (if cur = [] then [] else [cur])"
| "split_ws cur (c # cs) =
     (if py_isspace c then (if cur = [] then split_ws [] cs else cur # split_ws [] cs)
      else split_ws (cur @ [c]) cs)"

definition py_split :: "string \<Rightarrow> string list" where
  "py_split s = split_ws [] s"

text \<open>\<open>s.split(sep)\<close> for a separator of one character.\<close>

fun split_on :: "char \<Rightarrow> string \<Rightarrow> string \<Rightarrow> string list" where
  "split_on sep cur [] = [cur]"
| "split_on sep cur (c # cs) =
     (if c = sep then cur # split_on sep [] cs else split_on sep (cur @ [c]) cs)"

definition py_split_sep :: "char \<Rightarrow> string \<Rightarrow> string list" where
  "py_split_sep sep s = split_on sep [] s"

definition py_strip :: "string \<Rightarrow> string" where
  "py_strip s = rev (dropWhile py_isspace (rev (dropWhile py_isspace s)))"

text \<open>\<open>s.replace(old, new)\<close> for a non-empty \<open>old\<close> (the program's only call has
  \<open>old = ".tar"\<close>): occurrences are replaced from left to right, without overlap.\<close>

function py_replace :: "string \<Rightarrow> string \<Rightarrow> string \<Rightarrow> string" where
  "py_replace old new [] = []"
| "py_replace old new (c # cs) =
     (if take (length old) (c # cs) = old
      then new @ py_replace old new (drop (length old - 1) cs)
      else c # py_replace old new cs)"
  by pat_completeness auto
termination
  by (relation "measure (\<lambda>(old, new, s). length s)") auto

text \<open>\<open>PurePath.stem\<close>: the name without its last suffix; a name whose only dot is the first
  or the last character has no suffix.\<close>

definition py_stem :: "string \<Rightarrow> string" where
  "py_stem name =
     (let r = rev name;
          ext = takeWhile (\<lambda>c. c \<noteq> CHR ''.'') r;
          rest = dropWhile (\<lambda>c. c \<noteq> CHR ''.'') r
      in if rest = [] then name
         else if tl rest = [] \<or> ext = [] then name
         else rev (tl rest))"

definition endswith :: "string \<Rightarrow> string \<Rightarrow> bool" where
  "endswith s suf = (length suf \<le> length s \<and> drop (length s - length suf) s = suf)"

subsection \<open>Paths and the file system\<close>

type_synonym path = "string list"

fun join_with :: "string \<Rightarrow> string list \<Rightarrow> string" where
  "join_with sep [] = []"
| "join_with sep [x] = x"
| "join_with sep (x # y # ys) = x @ sep @ join_with sep (y # ys)"

text \<open>\<open>str(p)\<close> of a relative path; the empty path is the working directory.\<close>

definition path_str :: "path \<Rightarrow> string" where
  "path_str p = (if p = [] then ''.'' else join_with ''/'' p)"

text \<open>\<open>p.name\<close>.\<close>

definition path_name :: "path \<Rightarrow> string" where
  "path_name p = (if p = [] then [] else last p)"

text \<open>\<open>Path(f"{p}.sha256")\<close>: the suffix goes on the last component.\<close>

definition with_suffix_str :: "path \<Rightarrow> string \<Rightarrow> path" where
  "with_suffix_str p suf = (if p = [] then [CHR ''.'' # suf] else butlast p @ [last p @ suf])"

datatype node = File string | Dir "(string \<times> node) list"

fun lookup :: "node \<Rightarrow> path \<Rightarrow> node option" where
  "lookup n [] = Some n"
| "lookup (File s) (x # xs) = None"
| "lookup (Dir es) (x # xs) =
     (case map_of es x of None \<Rightarrow> None | Some c \<Rightarrow> lookup c xs)"

text \<open>\<open>put t p n\<close> stores \<open>n\<close> at \<open>p\<close>; \<open>None\<close> when the parent of \<open>p\<close> is not a directory of
  \<open>t\<close>.\<close>

fun put :: "node \<Rightarrow> path \<Rightarrow> node \<Rightarrow> node option" where
  "put t [] n = Some n"
| "put (File s) (x # xs) n = None"
| "put (Dir es) [x] n = Some (Dir (AList.update x n es))"
| "put (Dir es) (x # y # ys) n =
     (case map_of es x of
        None \<Rightarrow> None
      | Some c \<Rightarrow>
          (case put c (y # ys) n of
             None \<Rightarrow> None
           | Some c' \<Rightarrow> Some (Dir (AList.update x c' es))))"

text \<open>\<open>rm -rf p\<close>: the subtree at \<open>p\<close> is gone; a missing path is no error.\<close>

fun remove :: "node \<Rightarrow> path \<Rightarrow> node" where
  "remove t [] = t"
| "remove (File s) (x # xs) = File s"
| "remove (Dir es) [x] = Dir (AList.delete x es)"
| "remove (Dir es) (x # y # ys) =
     (case map_of es x of
        None \<Rightarrow> Dir es
      | Some c \<Rightarrow> Dir (AList.update x (remove c (y # ys)) es))"

definition is_dir_node :: "node option \<Rightarrow> bool" where
  "is_dir_node n = (case n of Some (Dir es) \<Rightarrow> True | _ \<Rightarrow> False)"

definition is_file_node :: "node option \<Rightarrow> bool" where
  "is_file_node n = (case n of Some (File s) \<Rightarrow> True | _ \<Rightarrow> False)"

subsection \<open>JSON values\<close>

text \<open>What \<open>json.load\<close> returns. A dict is an association list in insertion order. A float
  is kept as its text, since the program never computes with one.\<close>

datatype jval =
    JNull
  | JBool bool
  | JInt int
  | JFloat string
  | JStr string
  | JList "jval list"
  | JObj "(string \<times> jval) list"

text \<open>\<open>d.update(other)\<close> for a dict \<open>other\<close>: an existing key keeps its place and takes
  the new value, a new key goes to the end.\<close>

fun dict_update :: "(string \<times> jval) list \<Rightarrow> (string \<times> jval) list \<Rightarrow> (string \<times> jval) list" where
  "dict_update d [] = d"
| "dict_update d ((k, v) # kvs) = dict_update (AList.update k v d) kvs"

subsection \<open>The world, the platform and exceptions\<close>

datatype py_exc =
    OSError
  | IndexError
  | JSONDecodeError
  | AttributeError
  | TypeError
  | TimeoutExpired
  | TarError

text \<open>A \<open>subprocess.CompletedProcess\<close>.\<close>

record proc =
  returncode :: int
  stdout :: string
  stderr :: string

text \<open>One constructor for each \<open>print\<close> of the export and import paths, with the values
  that the message interpolates.\<close>

datatype msg =
    MHeader string
  | MCollectingMetadata
  | MMetadataSaved
  | MExportingConfigs
  | MConfigExported string
  | MExportingVolumes
  | MExportingVolume string
  | MVolumeExported string
  | MVolumeExportFailed string
  | MCreatingArchive
  | MCalculatingChecksum
  | MExportComplete
  | MArchive string
  | MSize nat
  | MSha256 string
  | MBackupNotFound string
  | MVerifyingChecksum
  | MChecksumVerified
  | MChecksumMismatch
  | MExtracting
  | MInvalidStructure
  | MManifestNotFound
  | MBackupInfo
  | MInfoLine string "jval option"
  | MRestoringConfigs
  | MConfigRestored string
  | MRestoringVolumes
  | MWillStopContainers
  | MImportingVolume string
  | MVolumeImported string
  | MVolumeImportFailed string
  | MImportComplete
  | MNextSteps
  | MNextStep1
  | MNextStep2
  | MHelp

record world =
  fs :: node
  out :: "msg list"
  trace :: "string list list"

text \<open>
  The platform: the library functions and the outside behaviour that a run depends on.
  \<^item> \<open>sha256_hexdigest b\<close>: \<open>hashlib.sha256\<close> over the bytes \<open>b\<close>, as hexadecimal text;
  \<^item> \<open>json_dumps v\<close>: the text \<open>json.dump(v, f, indent=2)\<close> writes; \<open>json_loads\<close>: what
    \<open>json.load\<close> returns, \<open>None\<close> when it raises;
  \<^item> \<open>tar_add arcname t\<close>: the bytes of the archive made by \<open>tar.add(t, arcname)\<close>;
  \<^item> \<open>tar_extractall b es\<close>: opening the archive bytes \<open>b\<close> and extracting into a directory
    with entries \<open>es\<close> gives the directory's new entries, and an exception if one is raised;
  \<^item> \<open>docker_ps\<close>, \<open>docker_volume_ls\<close>: the completed listing commands;
  \<^item> \<open>export_helper v\<close>: the helper container that archives volume \<open>v\<close>: \<open>None\<close> when the
    300 second timeout expires, and the bytes of \<open>v.tar.gz\<close> it left in the output
    directory, if any;
  \<^item> \<open>import_helper v name\<close>: the helper container that extracts \<open>name\<close> into volume \<open>v\<close>;
  \<^item> \<open>now_stamp\<close>, \<open>now_iso\<close>: the clock, formatted; \<open>cwd\<close>: the working directory.
\<close>

record platform =
  sha256_hexdigest :: "string \<Rightarrow> string"
  json_dumps :: "jval \<Rightarrow> string"
  json_loads :: "string \<Rightarrow> jval option"
  tar_add :: "string \<Rightarrow> node \<Rightarrow> string"
  tar_extractall :: "string \<Rightarrow> (string \<times> node) list \<Rightarrow> (string \<times> node) list \<times> py_exc option"
  docker_ps :: proc
  docker_volume_ls :: proc
  export_helper :: "string \<Rightarrow> proc option \<times> string option"
  import_helper :: "string \<Rightarrow> string \<Rightarrow> proc option"
  now_stamp :: string
  now_iso :: string
  cwd :: string

type_synonym 'a io = "world \<Rightarrow> (py_exc + 'a) \<times> world"

definition ret :: "'a \<Rightarrow> 'a io" where
  "ret x = (\<lambda>w. (Inr x, w))"

definition raise :: "py_exc \<Rightarrow> 'a io" where
  "raise e = (\<lambda>w. (Inl e, w))"

definition bind :: "'a io \<Rightarrow> ('a \<Rightarrow> 'b io) \<Rightarrow> 'b io" where
  "bind m f = (\<lambda>w. case m w of (Inl e, w') \<Rightarrow> (Inl e, w') | (Inr x, w') \<Rightarrow> f x w')"

definition seq :: "unit io \<Rightarrow> 'b io \<Rightarrow> 'b io" where
  "seq m k = bind m (\<lambda>_. k)"

definition print :: "msg \<Rightarrow> unit io" where
  "print m = (\<lambda>w. (Inr (), w\<lparr>out := out w @ [m]\<rparr>))"

subsection \<open>File operations\<close>

text \<open>\<open>Path.exists\<close>, \<open>Path.is_dir\<close>, \<open>Path.is_file\<close>.\<close>

definition path_exists :: "path \<Rightarrow> bool io" where
  "path_exists p = (\<lambda>w. (Inr (lookup (fs w) p \<noteq> None), w))"

definition is_dir :: "path \<Rightarrow> bool io" where
  "is_dir p = (\<lambda>w. (Inr (is_dir_node (lookup (fs w) p)), w))"

definition is_file :: "path \<Rightarrow> bool io" where
  "is_file p = (\<lambda>w. (Inr (is_file_node (lookup (fs w) p)), w))"

text \<open>\<open>Path.mkdir(exist_ok=True)\<close>. The subclasses of \<open>OSError\<close> are not told apart.\<close>

definition mkdir_exist_ok :: "path \<Rightarrow> unit io" where
  "mkdir_exist_ok p = (\<lambda>w.
     case lookup (fs w) p of
       Some (Dir es) \<Rightarrow> (Inr (), w)
     | Some (File s) \<Rightarrow> (Inl OSError, w)
     | None \<Rightarrow>
         (case put (fs w) p (Dir []) of
            None \<Rightarrow> (Inl OSError, w)
          | Some t \<Rightarrow> (Inr (), w\<lparr>fs := t\<rparr>)))"

text \<open>\<open>open(p).read()\<close> and \<open>open(p, 'w').write(s)\<close>.\<close>

definition read_file :: "path \<Rightarrow> string io" where
  "read_file p = (\<lambda>w.
     case lookup (fs w) p of Some (File s) \<Rightarrow> (Inr s, w) | _ \<Rightarrow> (Inl OSError, w))"

definition write_file :: "path \<Rightarrow> string \<Rightarrow> unit io" where
  "write_file p s = (\<lambda>w.
     if is_dir_node (lookup (fs w) p) then (Inl OSError, w)
     else (case put (fs w) p (File s) of
             None \<Rightarrow> (Inl OSError, w)
           | Some t \<Rightarrow> (Inr (), w\<lparr>fs := t\<rparr>)))"

text \<open>\<open>Path.iterdir\<close>: the entries in the order the file system lists them.\<close>

definition iterdir :: "path \<Rightarrow> path list io" where
  "iterdir p = (\<lambda>w.
     case lookup (fs w) p of
       Some (Dir es) \<Rightarrow> (Inr (map (\<lambda>e. p @ [fst e]) es), w)
     | _ \<Rightarrow> (Inl OSError, w))"

text \<open>\<open>Path.glob("*.tar.gz")\<close>: the entries whose name ends in \<open>.tar.gz\<close>; nothing when the
  path is not a directory.\<close>

definition glob_tar_gz :: "path \<Rightarrow> path list io" where
  "glob_tar_gz p = (\<lambda>w.
     case lookup (fs w) p of
       Some (Dir es) \<Rightarrow>
         (Inr (map (\<lambda>e. p @ [fst e]) (filter (\<lambda>e. endswith (fst e) ''.tar.gz'') es)), w)
     | _ \<Rightarrow> (Inr [], w))"

subsection \<open>Child processes\<close>

text \<open>\<open>subprocess.run(argv)\<close>: the argument vector is recorded.\<close>

definition run :: "string list \<Rightarrow> unit io" where
  "run argv = (\<lambda>w. (Inr (), w\<lparr>trace := trace w @ [argv]\<rparr>))"

text \<open>What \<open>cp src dst\<close> does to the tree: a regular file is copied to \<open>dst\<close>, or into it when
  \<open>dst\<close> is a directory; anything else fails and changes nothing. The exit status is not
  looked at by the program.\<close>

definition cp_effect :: "path \<Rightarrow> path \<Rightarrow> node \<Rightarrow> node" where
  "cp_effect src dst t =
     (case lookup t src of
        Some (File s) \<Rightarrow>
          (let target = (if is_dir_node (lookup t dst) then dst @ [path_name src] else dst)
           in if is_dir_node (lookup t target) then t
              else (case put t target (File s) of None \<Rightarrow> t | Some t' \<Rightarrow> t'))
      | _ \<Rightarrow> t)"

definition run_cp :: "path \<Rightarrow> path \<Rightarrow> unit io" where
  "run_cp src dst =
     seq (run [''cp'', path_str src, path_str dst])
         (\<lambda>w. (Inr (), w\<lparr>fs := cp_effect src dst (fs w)\<rparr>))"

definition run_rm_rf :: "path \<Rightarrow> unit io" where
  "run_rm_rf p =
     seq (run [''rm'', ''-rf'', path_str p])
         (\<lambda>w. (Inr (), w\<lparr>fs := remove (fs w) p\<rparr>))"

text \<open>What a helper container leaves in the directory mounted at \<open>/backup\<close>.\<close>

definition helper_write :: "path \<Rightarrow> string option \<Rightarrow> node \<Rightarrow> node" where
  "helper_write p written t =
     (case written of
        None \<Rightarrow> t
      | Some b \<Rightarrow>
          if is_dir_node (lookup t p) then t
          else (case put t p (File b) of None \<Rightarrow> t | Some t' \<Rightarrow> t'))"

subsection \<open>class LocalAICLI\<close>

definition project_name :: string where
  "project_name = ''localai''"

definition backup_dir :: path where
  "backup_dir = [''backups'']"

text \<open>\<open>p.absolute()\<close> as a string.\<close>

definition abs_str :: "platform \<Rightarrow> path \<Rightarrow> string" where
  "abs_str P p = cwd P @ ''/'' @ path_str p"

text \<open>The list comprehension \<open>[name for name in result.stdout.strip().split('\n') if name]\<close>.\<close>

definition names_of_stdout :: "string \<Rightarrow> string list" where
  "names_of_stdout s = filter (\<lambda>name. name \<noteq> []) (py_split_sep (CHR 0x0A) (py_strip s))"

definition get_running_containers :: "platform \<Rightarrow> string list io" where
  "get_running_containers P =
     seq (run [''docker'', ''ps'', ''--filter'', ''name='' @ project_name,
               ''--format'', ''{{.Names}}''])
         (if returncode (docker_ps P) = 0
          then ret (names_of_stdout (stdout (docker_ps P)))
          else ret [])"

definition get_docker_volumes :: "platform \<Rightarrow> string list io" where
  "get_docker_volumes P =
     seq (run [''docker'', ''volume'', ''ls'', ''--filter'', ''name='' @ project_name,
               ''--format'', ''{{.Name}}''])
         (if returncode (docker_volume_ls P) = 0
          then ret (names_of_stdout (stdout (docker_volume_ls P)))
          else ret [])"

text \<open>\<open>run_command(argv, timeout=300)\<close>: \<open>subprocess.run\<close> raises \<open>TimeoutExpired\<close> when the
  child has not finished in time.\<close>

definition export_docker_volume :: "platform \<Rightarrow> string \<Rightarrow> path \<Rightarrow> bool io" where
  "export_docker_volume P volume_name output_dir =
     seq (print (MExportingVolume volume_name))
    (seq (run [''docker'', ''run'', ''--rm'',
               ''-v'', volume_name @ '':/volume'',
               ''-v'', abs_str P output_dir @ '':/backup'',
               ''alpine'',
               ''tar'', ''czf'', ''/backup/'' @ volume_name @ ''.tar.gz'', ''-C'', ''/volume'', ''.''])
    (seq (\<lambda>w. (Inr (), w\<lparr>fs := helper_write (output_dir @ [volume_name @ ''.tar.gz''])
                                   (snd (export_helper P volume_name)) (fs w)\<rparr>))
         (case fst (export_helper P volume_name) of
            None \<Rightarrow> raise TimeoutExpired
          | Some result \<Rightarrow>
              if returncode result = 0
              then seq (print (MVolumeExported volume_name)) (ret True)
              else seq (print (MVolumeExportFailed (stderr result))) (ret False))))"

definition import_docker_volume :: "platform \<Rightarrow> string \<Rightarrow> path \<Rightarrow> bool io" where
  "import_docker_volume P volume_name backup_file =
     seq (print (MImportingVolume volume_name))
    (seq (run [''docker'', ''volume'', ''create'', volume_name])
    (seq (run [''docker'', ''run'', ''--rm'',
               ''-v'', volume_name @ '':/volume'',
               ''-v'', abs_str P (butlast backup_file) @ '':/backup'',
               ''alpine'',
               ''tar'', ''xzf'', ''/backup/'' @ path_name backup_file, ''-C'', ''/volume''])
         (case import_helper P volume_name (path_name backup_file) of
            None \<Rightarrow> raise TimeoutExpired
          | Some result \<Rightarrow>
              if returncode result = 0
              then seq (print (MVolumeImported (path_name backup_file))) (ret True)
              else seq (print (MVolumeImportFailed (stderr result))) (ret False))))"

subsection \<open>export\_environment\<close>

definition config_files :: "path list" where
  "config_files =
     [[''.env''], [''.env.enc''], [''.sops.yaml''], [''docker-compose.yml''],
      [''docker-compose.override.private.yml''], [''docker-compose.override.public.yml''],
      [''Caddyfile''], [''.bootstrap_metadata.json'']]"

text \<open>The loop over \<open>config_files\<close>.\<close>

fun copy_configs :: "path list \<Rightarrow> path \<Rightarrow> unit io" where
  "copy_configs [] config_dir = ret ()"
| "copy_configs (config_file # rest) config_dir =
     bind (path_exists config_file) (\<lambda>ex.
       if ex
       then seq (run_cp config_file config_dir)
           (seq (print (MConfigExported (path_str config_file)))
                (copy_configs rest config_dir))
       else copy_configs rest config_dir)"

text \<open>The loop over the volumes; the result of \<open>export_docker_volume\<close> is dropped.\<close>

fun export_volumes :: "platform \<Rightarrow> string list \<Rightarrow> path \<Rightarrow> unit io" where
  "export_volumes P [] volumes_dir = ret ()"
| "export_volumes P (volume # rest) volumes_dir =
     bind (export_docker_volume P volume volumes_dir) (\<lambda>_. export_volumes P rest volumes_dir)"

text \<open>The metadata dict and the merge of \<open>.bootstrap_metadata.json\<close>. \<open>dict.update\<close> with a
  value that is not a dict raises, or reads a sequence of pairs: the model raises in both
  cases.\<close>

definition collect_metadata :: "platform \<Rightarrow> string \<Rightarrow> (string \<times> jval) list io" where
  "collect_metadata P format =
     bind (get_running_containers P) (\<lambda>containers.
     bind (get_docker_volumes P) (\<lambda>volumes.
     let metadata =
           [(''version'', JStr ''1.0''),
            (''timestamp'', JStr (now_iso P)),
            (''format'', JStr format),
            (''containers'', JList (map JStr containers)),
            (''volumes'', JList (map JStr volumes))]
     in bind (path_exists [''.bootstrap_metadata.json'']) (\<lambda>ex.
          if ex
          then bind (read_file [''.bootstrap_metadata.json'']) (\<lambda>text.
                 case json_loads P text of
                   None \<Rightarrow> raise JSONDecodeError
                 | Some (JObj bootstrap_meta) \<Rightarrow> ret (dict_update metadata bootstrap_meta)
                 | Some _ \<Rightarrow> raise TypeError)
          else ret metadata)))"

text \<open>The summary at the end of the export.\<close>

definition export_summary :: "path \<Rightarrow> nat \<Rightarrow> string \<Rightarrow> msg list" where
  "export_summary archive_path nbytes checksum =
     [MExportComplete, MArchive (path_str archive_path), MSize nbytes, MSha256 checksum]"

definition print_all :: "msg list \<Rightarrow> unit io" where
  "print_all ms = (\<lambda>w. (Inr (), w\<lparr>out := out w @ ms\<rparr>))"

text \<open>Lines 146 to 172: the configuration files and the custom configuration.\<close>

definition export_config_files :: "path \<Rightarrow> unit io" where
  "export_config_files config_dir =
     seq (print MExportingConfigs)
    (seq (mkdir_exist_ok config_dir)
    (seq (copy_configs config_files config_dir)
         (bind (path_exists [''searxng'', ''settings.yml'']) (\<lambda>ex.
            if ex
            then seq (mkdir_exist_ok (config_dir @ [''searxng'']))
                (seq (run_cp [''searxng'', ''settings.yml''] (config_dir @ [''searxng'']))
                     (print (MConfigExported ''searxng/settings.yml'')))
            else ret ()))))"

text \<open>Lines 174 to 182: the volumes, for a full backup only.\<close>

definition export_volumes_if_full :: "platform \<Rightarrow> string \<Rightarrow> path \<Rightarrow> unit io" where
  "export_volumes_if_full P format volumes_dir =
     (if format = ''full''
      then seq (print MExportingVolumes)
          (seq (mkdir_exist_ok volumes_dir)
          (bind (get_docker_volumes P) (\<lambda>volumes.
             export_volumes P volumes volumes_dir)))
      else ret ())"

text \<open>Lines 184 to 212: the archive, its checksum, the cleanup and the summary.\<close>

definition pack_and_checksum :: "platform \<Rightarrow> string \<Rightarrow> path \<Rightarrow> path \<Rightarrow> path io" where
  "pack_and_checksum P output_name export_dir archive_path =
     seq (print MCreatingArchive)
    (bind (\<lambda>w. (case lookup (fs w) export_dir of
                   None \<Rightarrow> Inl OSError
                 | Some t \<Rightarrow> Inr (tar_add P output_name t), w)) (\<lambda>archive.
     seq (write_file archive_path archive)
    (seq (print MCalculatingChecksum)
    (bind (read_file archive_path) (\<lambda>bytes.
     let checksum = sha256_hexdigest P bytes in
     seq (write_file (with_suffix_str archive_path ''.sha256'')
            (checksum @ ''  '' @ path_name archive_path @ [CHR 0x0A]))
    (seq (run_rm_rf export_dir)
    (bind (read_file archive_path) (\<lambda>final.
     seq (print_all (export_summary archive_path (length final) checksum))
         (ret archive_path)))))))))"

text \<open>Lines 118 to 120: the name given, or one made from the clock when none (or an empty
  one) is given.\<close>

definition output_name_of :: "platform \<Rightarrow> string option \<Rightarrow> string" where
  "output_name_of P output_name0 =
     (case output_name0 of
        None \<Rightarrow> ''localai_backup_'' @ now_stamp P
      | Some n \<Rightarrow> if n = [] then ''localai_backup_'' @ now_stamp P else n)"

definition export_environment :: "platform \<Rightarrow> string option \<Rightarrow> string \<Rightarrow> path io" where
  "export_environment P output_name0 format =
     (let output_name = output_name_of P output_name0;
          export_dir = backup_dir @ [output_name];
          archive_path = backup_dir @ [output_name @ ''.tar.gz'']
      in
      seq (print (MHeader ''Exporting Local AI Package''))
     (seq (mkdir_exist_ok export_dir)
     (seq (print MCollectingMetadata)
     (bind (collect_metadata P format) (\<lambda>metadata.
      seq (write_file (export_dir @ [''manifest.json'']) (json_dumps P (JObj metadata)))
     (seq (print MMetadataSaved)
     (seq (export_config_files (export_dir @ [''configs'']))
     (seq (export_volumes_if_full P format (export_dir @ [''volumes'']))
          (pack_and_checksum P output_name export_dir archive_path)))))))))"

subsection \<open>import\_environment\<close>

text \<open>Lines 223 to 239: the checksum is verified when the sidecar exists. The result
  \<open>False\<close> stands for the \<open>return False\<close> of line 239.\<close>

definition verify_checksum :: "platform \<Rightarrow> path \<Rightarrow> bool io" where
  "verify_checksum P backup_file =
     bind (path_exists (with_suffix_str backup_file ''.sha256'')) (\<lambda>ex.
       if ex
       then seq (print MVerifyingChecksum)
           (bind (read_file (with_suffix_str backup_file ''.sha256'')) (\<lambda>text.
              case py_split text of
                [] \<Rightarrow> raise IndexError
              | expected_checksum # _ \<Rightarrow>
                  bind (read_file backup_file) (\<lambda>bytes.
                    if sha256_hexdigest P bytes = expected_checksum
                    then seq (print MChecksumVerified) (ret True)
                    else seq (print MChecksumMismatch) (ret False))))
       else ret True)"

text \<open>Lines 246 and 247: \<open>tarfile.open(backup_path, "r:gz")\<close> and \<open>extractall\<close>.\<close>

definition extract_archive :: "platform \<Rightarrow> path \<Rightarrow> path \<Rightarrow> unit io" where
  "extract_archive P backup_file extract_dir =
     bind (read_file backup_file) (\<lambda>bytes w.
       case lookup (fs w) extract_dir of
         Some (Dir es) \<Rightarrow>
           (case put (fs w) extract_dir (Dir (fst (tar_extractall P bytes es))) of
              None \<Rightarrow> (Inl OSError, w)
            | Some t \<Rightarrow>
                (case snd (tar_extractall P bytes es) of
                   None \<Rightarrow> (Inr (), w\<lparr>fs := t\<rparr>)
                 | Some e \<Rightarrow> (Inl e, w\<lparr>fs := t\<rparr>)))
       | _ \<Rightarrow> (Inl OSError, w))"

text \<open>Line 250: \<open>[d for d in extract_dir.iterdir() if d.is_dir()]\<close>.\<close>

definition list_backup_dirs :: "path \<Rightarrow> path list io" where
  "list_backup_dirs extract_dir =
     bind (iterdir extract_dir) (\<lambda>ds w.
       (Inr (filter (\<lambda>d. is_dir_node (lookup (fs w) d)) ds), w))"

text \<open>\<open>manifest.get(key)\<close>: only a dict has the method.\<close>

definition manifest_get :: "jval \<Rightarrow> string \<Rightarrow> jval option io" where
  "manifest_get manifest key =
     (case manifest of JObj kvs \<Rightarrow> ret (map_of kvs key) | _ \<Rightarrow> raise AttributeError)"

definition print_info :: "jval \<Rightarrow> string \<Rightarrow> unit io" where
  "print_info manifest key =
     bind (manifest_get manifest key) (\<lambda>v. print (MInfoLine key v))"

text \<open>The loop of lines 277 to 281 over the entries of \<open>configs\<close>.\<close>

fun restore_configs :: "path list \<Rightarrow> unit io" where
  "restore_configs [] = ret ()"
| "restore_configs (config_file # rest) =
     bind (is_file config_file) (\<lambda>f.
       if f
       then seq (run_cp config_file [path_name config_file])
           (seq (print (MConfigRestored (path_name config_file)))
                (restore_configs rest))
       else restore_configs rest)"

text \<open>The loop of lines 296 to 298 over the volume archives.\<close>

fun import_volumes :: "platform \<Rightarrow> path list \<Rightarrow> unit io" where
  "import_volumes P [] = ret ()"
| "import_volumes P (volume_backup # rest) =
     bind (import_docker_volume P
             (py_replace ''.tar'' [] (py_stem (path_name volume_backup))) volume_backup)
          (\<lambda>_. import_volumes P rest)"

text \<open>Lines 272 to 281: the configuration files.\<close>

definition restore_config_files :: "path \<Rightarrow> unit io" where
  "restore_config_files config_dir =
     seq (print MRestoringConfigs)
         (bind (path_exists config_dir) (\<lambda>ex.
            if ex then bind (iterdir config_dir) restore_configs else ret ()))"

text \<open>Lines 283 to 298: the volumes, unless skipped; \<open>format\<close> is \<open>manifest.get('format')\<close>.\<close>

definition restore_volumes :: "platform \<Rightarrow> bool \<Rightarrow> jval option \<Rightarrow> path \<Rightarrow> unit io" where
  "restore_volumes P skip_volumes format volumes_dir =
     (if \<not> skip_volumes \<and> format = Some (JStr ''full'')
      then seq (print MRestoringVolumes)
          (seq (print MWillStopContainers)
          (seq (run [''docker'', ''compose'', ''-p'', project_name, ''down''])
          (bind (path_exists volumes_dir) (\<lambda>ex.
             if ex then bind (glob_tar_gz volumes_dir) (import_volumes P)
             else ret ()))))
      else ret ())"

text \<open>Lines 257 to 308: from the manifest to the end.\<close>

definition restore_from :: "platform \<Rightarrow> path \<Rightarrow> path \<Rightarrow> bool \<Rightarrow> bool io" where
  "restore_from P extract_dir restore_dir skip_volumes =
     (let manifest_file = restore_dir @ [''manifest.json'']
      in
      bind (path_exists manifest_file) (\<lambda>ex.
        if \<not> ex then seq (print MManifestNotFound) (ret False)
        else
          bind (read_file manifest_file) (\<lambda>text.
            case json_loads P text of
              None \<Rightarrow> raise JSONDecodeError
            | Some manifest \<Rightarrow>
                seq (print MBackupInfo)
               (seq (print_info manifest ''timestamp'')
               (seq (print_info manifest ''format'')
               (seq (print_info manifest ''hardware_profile'')
               (seq (print_info manifest ''environment'')
               (seq (restore_config_files (restore_dir @ [''configs'']))
               (bind (manifest_get manifest ''format'') (\<lambda>format.
                seq (restore_volumes P skip_volumes format (restore_dir @ [''volumes'']))
               (seq (run_rm_rf extract_dir)
               (seq (print_all [MImportComplete, MNextSteps, MNextStep1, MNextStep2])
                    (ret True)))))))))))))"

definition import_environment :: "platform \<Rightarrow> path \<Rightarrow> bool \<Rightarrow> bool io" where
  "import_environment P backup_file skip_volumes =
     (let extract_dir = backup_dir @ [''restore_temp''] in
      seq (print (MHeader ''Importing Local AI Package''))
     (bind (path_exists backup_file) (\<lambda>ex.
        if \<not> ex then seq (print (MBackupNotFound (path_str backup_file))) (ret False)
        else
          bind (verify_checksum P backup_file) (\<lambda>ok.
            if \<not> ok then ret False
            else
              seq (print MExtracting)
             (seq (mkdir_exist_ok extract_dir)
             (seq (extract_archive P backup_file extract_dir)
             (bind (list_backup_dirs extract_dir) (\<lambda>backup_dirs.
                case backup_dirs of
                  [] \<Rightarrow> seq (print MInvalidStructure) (ret False)
                | restore_dir # _ \<Rightarrow>
                    restore_from P extract_dir restore_dir skip_volumes))))))))"

subsection \<open>main\<close>

text \<open>The parsed command line; the subcommands other than \<open>export\<close> and \<open>import\<close> are not
  part of the model.\<close>

datatype command =
    NoCommand
  | Export "string option" string
  | Import path bool

text \<open>\<open>main\<close> gives the exit status of the process: 1 after \<open>sys.exit(1)\<close> and after an
  exception that nothing catches, 2 when argparse rejects the format, 0 when \<open>main\<close> returns.
  The constructor of \<open>LocalAICLI\<close> creates \<open>backups\<close>.\<close>

definition exit_status :: "(py_exc + 'a) \<times> world \<Rightarrow> int \<times> world" where
  "exit_status r = (case r of (Inl e, w) \<Rightarrow> (1, w) | (Inr x, w) \<Rightarrow> (0, w))"

definition main :: "platform \<Rightarrow> command \<Rightarrow> world \<Rightarrow> int \<times> world" where
  "main P args w =
     (case args of
        NoCommand \<Rightarrow> (1, w\<lparr>out := out w @ [MHelp]\<rparr>)
      | Export output format \<Rightarrow>
          if format \<notin> {''full'', ''config'', ''minimal''} then (2, w)
          else exit_status
                 (seq (mkdir_exist_ok backup_dir)
                      (bind (export_environment P output format) (\<lambda>_. ret ())) w)
      | Import backup_file skip_volumes \<Rightarrow>
          exit_status
            (seq (mkdir_exist_ok backup_dir)
                 (bind (import_environment P backup_file skip_volumes) (\<lambda>_. ret ())) w))"

subsection \<open>Predicates on the commands of a run\<close>

text \<open>The command that stops the services, the commands of a volume import, and what would
  start services again: a compose command other than the stop, or a Python script such as
  \<open>start_services.py\<close>.\<close>

definition stop_cmd :: "string list" where
  "stop_cmd = [''docker'', ''compose'', ''-p'', project_name, ''down'']"

definition is_volume_import :: "string list \<Rightarrow> bool" where
  "is_volume_import argv =
     (take 2 argv = [''docker'', ''volume''] \<or> take 2 argv = [''docker'', ''run''])"

definition is_service_start :: "string list \<Rightarrow> bool" where
  "is_service_start argv =
     ((take 2 argv = [''docker'', ''compose''] \<and> argv \<noteq> stop_cmd)
      \<or> take 1 argv = [''python''] \<or> take 1 argv = [''python3''])"

definition is_cp :: "string list \<Rightarrow> bool" where
  "is_cp argv = (take 1 argv = [''cp''])"

subsection \<open>A platform and worlds for the examples\<close>

text \<open>Stand-ins for the codecs: \<open>show_json\<close> and \<open>show_node\<close> write a value out in full, the
  digest of \<open>b\<close> is \<open>sha-b\<close>, and an archive is recognised by its bytes in a table.\<close>

primrec show_json :: "jval \<Rightarrow> string" where
  "show_json JNull = ''null''"
| "show_json (JBool b) = (if b then ''true'' else ''false'')"
| "show_json (JInt i) = ''int''"
| "show_json (JFloat s) = s"
| "show_json (JStr s) = s"
| "show_json (JList vs) = ''['' @ join_with '','' (map show_json vs) @ '']''"
| "show_json (JObj kvs) =
     ''{'' @ join_with '','' (map (\<lambda>kv. fst kv @ '':'' @ snd kv) (map (map_prod id show_json) kvs))
       @ ''}''"

primrec show_node :: "node \<Rightarrow> string" where
  "show_node (File s) = ''<'' @ s @ ''>''"
| "show_node (Dir es) =
     ''('' @ concat (map (\<lambda>e. fst e @ ''='' @ snd e @ '';'') (map (map_prod id show_node) es))
       @ '')''"

definition ok_proc :: proc where
  "ok_proc = \<lparr>returncode = 0, stdout = [], stderr = []\<rparr>"

definition failed_proc :: proc where
  "failed_proc = \<lparr>returncode = 1, stdout = [], stderr = ''tar: write error''\<rparr>"

definition good_root :: node where
  "good_root =
     Dir [(''manifest.json'', File ''format=full''),
          (''configs'',
             Dir [(''.env'', File ''KEY=new''),
                  (''searxng'', Dir [(''settings.yml'', File ''use_default_settings: true'')])]),
          (''volumes'', Dir [(''localai_a.tar.gz'', File ''data-localai_a'')])]"

definition demo_archives :: "(string \<times> (string \<times> node) list) list" where
  "demo_archives =
     [(''good'', [(''bk'', good_root)]),
      (''two-roots'',
         [(''old'', Dir [(''manifest.json'', File ''format=config''),
                         (''configs'', Dir [(''.env'', File ''KEY=stale'')])]),
          (''bk'', good_root)]),
      (''no-manifest'', [(''bk'', Dir [(''configs'', Dir [])])])]"

definition demo_platform :: platform where
  "demo_platform =
     \<lparr>sha256_hexdigest = (\<lambda>b. ''sha-'' @ b),
      json_dumps = show_json,
      json_loads = (\<lambda>s. if s = ''format=full'' then Some (JObj [(''format'', JStr ''full'')])
                         else if s = ''format=config''
                         then Some (JObj [(''format'', JStr ''config'')])
                         else None),
      tar_add = (\<lambda>arcname t. arcname @ show_node t),
      tar_extractall = (\<lambda>b es.
         case map_of demo_archives b of
           None \<Rightarrow> (es, Some TarError)
         | Some members \<Rightarrow> (fold (\<lambda>e. AList.update (fst e) (snd e)) members es, None)),
      docker_ps = ok_proc,
      docker_volume_ls =
        ok_proc\<lparr>stdout := ''localai_a'' @ [CHR 0x0A] @ ''localai_b'' @ [CHR 0x0A]\<rparr>,
      export_helper = (\<lambda>v. (Some ok_proc, Some (''data-'' @ v))),
      import_helper = (\<lambda>v name. Some ok_proc),
      now_stamp = ''20250101_120000'',
      now_iso = ''2025-01-01T12:00:00'',
      cwd = ''/srv''\<rparr>"

text \<open>The helper of the first volume fails, or does not finish in time.\<close>

definition failing_platform :: platform where
  "failing_platform =
     demo_platform\<lparr>export_helper :=
       (\<lambda>v. if v = ''localai_a'' then (Some failed_proc, None)
            else (Some ok_proc, Some (''data-'' @ v)))\<rparr>"

definition slow_platform :: platform where
  "slow_platform =
     demo_platform\<lparr>export_helper :=
       (\<lambda>v. if v = ''localai_a'' then (None, None)
            else (Some ok_proc, Some (''data-'' @ v)))\<rparr>"

definition demo_backups :: "(string \<times> node) list" where
  "demo_backups =
     [(''good.tar.gz'', File ''good''),
      (''good.tar.gz.sha256'', File (''sha-good  good.tar.gz'' @ [CHR 0x0A])),
      (''tampered.tar.gz'', File ''goo0''),
      (''tampered.tar.gz.sha256'', File (''sha-good  tampered.tar.gz'' @ [CHR 0x0A])),
      (''two.tar.gz'', File ''two-roots''),
      (''nomanifest.tar.gz'', File ''no-manifest'')]"

definition demo_world :: world where
  "demo_world =
     \<lparr>fs = Dir [(''backups'', Dir demo_backups), (''.env'', File ''KEY=old'')],
      out = [],
      trace = []\<rparr>"

text \<open>The world after \<open>good.tar.gz\<close> has been extracted into the scratch directory.\<close>

definition extracted_world :: world where
  "extracted_world =
     \<lparr>fs = Dir [(''backups'', Dir (demo_backups @ [(''restore_temp'', Dir [(''bk'', good_root)])])),
                (''.env'', File ''KEY=old'')],
      out = [],
      trace = []\<rparr>"

section \<open>Properties\<close>

subsection \<open>Evaluation\<close>

lemmas io_defs =
  ret_def raise_def bind_def seq_def print_def print_all_def path_exists_def is_dir_def
  is_file_def mkdir_exist_ok_def read_file_def write_file_def iterdir_def glob_tar_gz_def
  run_def run_cp_def run_rm_rf_def cp_effect_def helper_write_def is_dir_node_def
  is_file_node_def Let_def

lemmas str_defs =
  names_of_stdout_def py_split_sep_def py_split_def py_strip_def py_isspace_def py_stem_def
  endswith_def path_str_def path_name_def with_suffix_str_def abs_str_def backup_dir_def
  project_name_def

lemmas import_defs =
  import_environment_def verify_checksum_def extract_archive_def list_backup_dirs_def
  restore_from_def restore_config_files_def restore_volumes_def manifest_get_def
  print_info_def import_docker_volume_def

lemmas export_defs =
  export_environment_def output_name_of_def export_config_files_def export_volumes_if_full_def
  pack_and_checksum_def collect_metadata_def get_running_containers_def
  get_docker_volumes_def export_docker_volume_def config_files_def export_summary_def

lemmas demo_defs =
  demo_platform_def failing_platform_def slow_platform_def demo_world_def demo_backups_def
  extracted_world_def demo_archives_def good_root_def ok_proc_def failed_proc_def

subsection \<open>The checksum\<close>



text \<open>
  C1. \<open>main\<close> drops the result of \<open>import_environment\<close>: the import of an archive whose
  checksum does not match ends with exit status 0.
\<close>

theorem main_import_checksum_mismatch_exit:
  "main demo_platform (Import [''backups'', ''tampered.tar.gz''] False) demo_world =
     (0, demo_world\<lparr>out := [MHeader ''Importing Local AI Package'',
                            MVerifyingChecksum, MChecksumMismatch]\<rparr>)"
  by (simp add: main_def exit_status_def import_defs io_defs str_defs demo_defs)

subsection \<open>The backup root and the scratch directory\<close>

text \<open>
  C3. An archive that extracts to two directories is not rejected: the import takes the
  first one listed, restores its configuration and returns \<open>True\<close>.
\<close>

theorem import_two_roots_proceeds:
  "fst (import_environment demo_platform [''backups'', ''two.tar.gz''] True demo_world) = Inr True
   \<and> trace (snd (import_environment demo_platform [''backups'', ''two.tar.gz''] True demo_world)) =
       [[''cp'', ''backups/restore_temp/old/configs/.env'', ''.env''],
        [''rm'', ''-rf'', ''backups/restore_temp'']]
   \<and> lookup (fs (snd (import_environment demo_platform [''backups'', ''two.tar.gz''] True
                        demo_world))) [''.env''] = Some (File ''KEY=stale'')"
  by (simp add: import_defs io_defs str_defs demo_defs)

text \<open>
  C4. An archive without a manifest: the import returns \<open>False\<close> and the scratch directory
  \<open>backups/restore_temp\<close> is still there, with what was extracted; no \<open>rm\<close> was run.
\<close>

theorem import_missing_manifest_leaves_scratch:
  "import_environment demo_platform [''backups'', ''nomanifest.tar.gz''] False demo_world =
     (Inr False,
      \<lparr>fs = Dir [(''backups'',
                   Dir [(''good.tar.gz'', File ''good''),
                        (''good.tar.gz.sha256'', File (''sha-good  good.tar.gz'' @ [CHR 0x0A])),
                        (''tampered.tar.gz'', File ''goo0''),
                        (''tampered.tar.gz.sha256'',
                           File (''sha-good  tampered.tar.gz'' @ [CHR 0x0A])),
                        (''two.tar.gz'', File ''two-roots''),
                        (''nomanifest.tar.gz'', File ''no-manifest''),
                        (''restore_temp'', Dir [(''bk'', Dir [(''configs'', Dir [])])])]),
                 (''.env'', File ''KEY=old'')],
       out = [MHeader ''Importing Local AI Package'', MExtracting, MManifestNotFound],
       trace = []\<rparr>)"
  by (simp add: import_defs io_defs str_defs demo_defs)

subsection \<open>The timeout of a volume export\<close>

text \<open>
  C7. When the helper of the first volume does not finish in time, \<open>TimeoutExpired\<close> leaves
  \<open>export_environment\<close>: the second volume is not exported, there is no archive, the export
  directory stays, and the exit status is 1.
\<close>

theorem export_timeout_aborts:
  "fst (export_environment slow_platform (Some ''bk'') ''full'' demo_world) = Inl TimeoutExpired
   \<and> lookup (fs (snd (export_environment slow_platform (Some ''bk'') ''full'' demo_world)))
       [''backups'', ''bk.tar.gz''] = None
   \<and> is_dir_node (lookup (fs (snd (export_environment slow_platform (Some ''bk'') ''full''
                                     demo_world))) [''backups'', ''bk''])
   \<and> MExportingVolume ''localai_b''
       \<notin> set (out (snd (export_environment slow_platform (Some ''bk'') ''full'' demo_world)))
   \<and> fst (main slow_platform (Export (Some ''bk'') ''full'') demo_world) = 1"
  by (simp add: main_def exit_status_def export_defs io_defs str_defs demo_defs)

subsection \<open>Running a computation on a world\<close>

lemma bind_apply:
  "bind m f w = (case m w of (Inl e, w') \<Rightarrow> (Inl e, w') | (Inr x, w') \<Rightarrow> f x w')"
  by (simp add: bind_def)

lemma seq_apply:
  "seq m k w = (case m w of (Inl e, w') \<Rightarrow> (Inl e, w') | (Inr x, w') \<Rightarrow> k w')"
  by (simp add: seq_def bind_def)

lemma ret_apply: "ret x w = (Inr x, w)"
  by (simp add: ret_def)

lemma raise_apply: "raise e w = (Inl e, w)"
  by (simp add: raise_def)

lemma print_apply: "print m w = (Inr (), w\<lparr>out := out w @ [m]\<rparr>)"
  by (simp add: print_def)

lemma print_all_apply: "print_all ms w = (Inr (), w\<lparr>out := out w @ ms\<rparr>)"
  by (simp add: print_all_def)

lemma run_apply: "run argv w = (Inr (), w\<lparr>trace := trace w @ [argv]\<rparr>)"
  by (simp add: run_def)

lemma path_exists_apply: "path_exists p w = (Inr (lookup (fs w) p \<noteq> None), w)"
  by (simp add: path_exists_def)

lemma is_file_apply: "is_file p w = (Inr (is_file_node (lookup (fs w) p)), w)"
  by (simp add: is_file_def)

lemma run_cp_apply:
  "run_cp src dst w =
     (Inr (), w\<lparr>trace := trace w @ [[''cp'', path_str src, path_str dst]],
                fs := cp_effect src dst (fs w)\<rparr>)"
  by (simp add: run_cp_def seq_apply run_apply)

lemma run_rm_rf_apply:
  "run_rm_rf p w =
     (Inr (), w\<lparr>trace := trace w @ [[''rm'', ''-rf'', path_str p]], fs := remove (fs w) p\<rparr>)"
  by (simp add: run_rm_rf_def seq_apply run_apply)

lemma manifest_get_apply:
  "manifest_get m k w = (case m of JObj kvs \<Rightarrow> (Inr (map_of kvs k), w) | _ \<Rightarrow> (Inl AttributeError, w))"
  by (cases m) (simp_all add: manifest_get_def ret_def raise_def)

lemmas exec =
  bind_apply seq_apply ret_apply raise_apply print_apply print_all_apply run_apply
  path_exists_apply is_file_apply run_cp_apply run_rm_rf_apply

subsection \<open>What a run prints and which commands it issues\<close>

lemma restore_configs_ext:
  "restore_configs cs w = (r, w') \<Longrightarrow>
     \<exists>ms tr. out w' = out w @ ms \<and> trace w' = trace w @ tr
        \<and> (\<forall>x\<in>set tr. is_cp x) \<and> (\<forall>m\<in>set ms. \<exists>n. m = MConfigRestored n)"
proof (induction cs arbitrary: w)
  case Nil
  then show ?case by (simp add: exec)
next
  case (Cons c cs)
  show ?case
  proof (cases "is_file_node (lookup (fs w) c)")
    case False
    with Cons.prems have "restore_configs cs w = (r, w')"
      by (simp add: exec)
    from Cons.IH [OF this] show ?thesis .
  next
    case True
    let ?w1 = "w\<lparr>trace := trace w @ [[''cp'', path_str c, path_str [path_name c]]],
                  fs := cp_effect c [path_name c] (fs w),
                  out := out w @ [MConfigRestored (path_name c)]\<rparr>"
    from True Cons.prems have "restore_configs cs ?w1 = (r, w')"
      by (simp add: exec)
    from Cons.IH [OF this] obtain ms tr where
      "out w' = out ?w1 @ ms" "trace w' = trace ?w1 @ tr"
      "\<forall>x\<in>set tr. is_cp x" "\<forall>m\<in>set ms. \<exists>n. m = MConfigRestored n" by blast
    then show ?thesis
      apply (rule_tac x = "MConfigRestored (path_name c) # ms" in exI)
      apply (rule_tac x = "[''cp'', path_str c, path_str [path_name c]] # tr" in exI)
      apply (simp add: is_cp_def)
      done
  qed
qed

lemma restore_config_files_ext:
  "restore_config_files cd w = (r, w') \<Longrightarrow>
     \<exists>ms tr. out w' = out w @ ms \<and> trace w' = trace w @ tr
        \<and> (\<forall>x\<in>set tr. is_cp x) \<and> (\<forall>m\<in>set ms. \<forall>k v. m \<noteq> MInfoLine k v)"
  apply (simp add: restore_config_files_def exec iterdir_def split: if_splits option.splits node.splits)
     apply (auto dest!: restore_configs_ext)
  done

lemma import_docker_volume_ext:
  "import_docker_volume P v b w = (r, w') \<Longrightarrow>
     \<exists>ms tr. out w' = out w @ ms \<and> trace w' = trace w @ tr
        \<and> (\<forall>x\<in>set tr. is_volume_import x) \<and> (\<forall>m\<in>set ms. \<forall>k v. m \<noteq> MInfoLine k v)"
  apply (simp add: import_docker_volume_def exec split: option.splits if_splits)
  apply (auto simp: is_volume_import_def)
  done

lemma import_volumes_ext:
  "import_volumes P bs w = (r, w') \<Longrightarrow>
     \<exists>ms tr. out w' = out w @ ms \<and> trace w' = trace w @ tr
        \<and> (\<forall>x\<in>set tr. is_volume_import x) \<and> (\<forall>m\<in>set ms. \<forall>k v. m \<noteq> MInfoLine k v)"
proof (induction bs arbitrary: w)
  case Nil
  then show ?case by (simp add: exec)
next
  case (Cons b bs)
  obtain r1 w1 where s1: "import_docker_volume P
             (py_replace ''.tar'' [] (py_stem (path_name b))) b w = (r1, w1)"
    by (cases "import_docker_volume P (py_replace ''.tar'' [] (py_stem (path_name b))) b w")
  from import_docker_volume_ext [OF s1] obtain ms1 tr1 where
    e1: "out w1 = out w @ ms1" "trace w1 = trace w @ tr1"
      "\<forall>x\<in>set tr1. is_volume_import x" "\<forall>m\<in>set ms1. \<forall>k v. m \<noteq> MInfoLine k v" by blast
  show ?case
  proof (cases r1)
    case (Inl e)
    with Cons.prems s1 have "w' = w1" by (simp add: bind_apply)
    with e1 show ?thesis by blast
  next
    case (Inr x)
    with Cons.prems s1 have "import_volumes P bs w1 = (r, w')" by (simp add: bind_apply)
    from Cons.IH [OF this] obtain ms tr where
      "out w' = out w1 @ ms" "trace w' = trace w1 @ tr"
      "\<forall>x\<in>set tr. is_volume_import x" "\<forall>m\<in>set ms. \<forall>k v. m \<noteq> MInfoLine k v" by blast
    with e1 show ?thesis
      apply (rule_tac x = "ms1 @ ms" in exI)
      apply (rule_tac x = "tr1 @ tr" in exI)
      apply auto
      done
  qed
qed

lemma restore_volumes_ext:
  "restore_volumes P skip fmt vd w = (r, w') \<Longrightarrow>
   \<exists>ms mid. out w' = out w @ ms \<and> trace w' = trace w @ mid
      \<and> (if \<not> skip \<and> fmt = Some (JStr ''full'')
          then \<exists>vols. mid = stop_cmd # vols \<and> (\<forall>x\<in>set vols. is_volume_import x)
          else mid = [])
      \<and> (\<forall>m\<in>set ms. \<forall>k v. m \<noteq> MInfoLine k v)"
  apply (simp add: restore_volumes_def exec glob_tar_gz_def stop_cmd_def
       split: if_splits option.splits node.splits)
     apply (auto dest!: import_volumes_ext)
  done

subsection \<open>The order of the commands of an import\<close>

lemma restore_from_shape:
  assumes run: "restore_from P ed rd skip w = (r, w')"
  shows "\<exists>ms cps mid fin. out w' = out w @ ms \<and> trace w' = trace w @ cps @ mid @ fin
     \<and> (\<forall>x\<in>set cps. is_cp x)
     \<and> (mid = [] \<or> (\<not> skip \<and> (\<exists>vols. mid = stop_cmd # vols \<and> (\<forall>x\<in>set vols. is_volume_import x))))
     \<and> (fin = [] \<or> fin = [[''rm'', ''-rf'', path_str ed]])
     \<and> (\<not> skip \<and> r = Inr True \<and> MInfoLine ''format'' (Some (JStr ''full'')) \<in> set ms \<longrightarrow> mid \<noteq> [])"
    (is "\<exists>ms cps mid fin. ?Q ms cps mid fin")
proof -
  have early: "\<exists>ms cps mid fin. ?Q ms cps mid fin"
    if "out w' = out w @ ms" "trace w' = trace w" "r \<noteq> Inr True" for ms
    using that
    by (rule_tac x = ms in exI, rule_tac x = "[]" in exI, rule_tac x = "[]" in exI,
        rule_tac x = "[]" in exI) simp
  show ?thesis
  proof (cases "lookup (fs w) (rd @ [''manifest.json''])")
    case None
    with run show ?thesis by (intro early [of "[MManifestNotFound]"]) (auto simp: restore_from_def Let_def exec)
  next
    case (Some n)
    show ?thesis
    proof (cases n)
      case (Dir es)
      with Some run show ?thesis
        by (intro early [of "[]"]) (auto simp: restore_from_def Let_def exec read_file_def)
    next
      case (File content)
      show ?thesis
      proof (cases "json_loads P content")
        case None
        with File Some run show ?thesis
          by (intro early [of "[]"]) (auto simp: restore_from_def Let_def exec read_file_def)
      next
        case manifest: (Some m)
        show ?thesis
        proof (cases "\<exists>kvs. m = JObj kvs")
          case False
          with manifest File Some run show ?thesis
            by (intro early [of "[MBackupInfo]"])
               (cases m; auto simp: restore_from_def Let_def exec read_file_def print_info_def manifest_get_apply)+
        next
          case True
          then obtain kvs where m: "m = JObj kvs" by blast
          let ?info = "[MBackupInfo,
                        MInfoLine ''timestamp'' (map_of kvs ''timestamp''),
                        MInfoLine ''format'' (map_of kvs ''format''),
                        MInfoLine ''hardware_profile'' (map_of kvs ''hardware_profile''),
                        MInfoLine ''environment'' (map_of kvs ''environment'')]"
          let ?wA = "w\<lparr>out := out w @ ?info\<rparr>"
          obtain rc wB where c: "restore_config_files (rd @ [''configs'']) ?wA = (rc, wB)"
            by (cases "restore_config_files (rd @ [''configs'']) ?wA")
          from restore_config_files_ext [OF c] obtain msB cps where
            b: "out wB = out w @ ?info @ msB" "trace wB = trace w @ cps" "\<forall>x\<in>set cps. is_cp x"
               "\<forall>m\<in>set msB. \<forall>k v. m \<noteq> MInfoLine k v" by auto
          obtain rv wC where v: "restore_volumes P skip (map_of kvs ''format'') (rd @ [''volumes'']) wB = (rv, wC)"
            by (cases "restore_volumes P skip (map_of kvs ''format'') (rd @ [''volumes'']) wB")
          from restore_volumes_ext [OF v] obtain msC mid where
            cc: "out wC = out wB @ msC" "trace wC = trace wB @ mid"
               "if \<not> skip \<and> map_of kvs ''format'' = Some (JStr ''full'')
                then \<exists>vols. mid = stop_cmd # vols \<and> (\<forall>x\<in>set vols. is_volume_import x)
                else mid = []"
               "\<forall>m\<in>set msC. \<forall>k v. m \<noteq> MInfoLine k v" by blast
          from run m manifest File Some c v have res:
            "(r, w') = (case rc of Inl e \<Rightarrow> (Inl e, wB)
                        | Inr u \<Rightarrow> (case rv of Inl e \<Rightarrow> (Inl e, wC)
                            | Inr u \<Rightarrow> (Inr True,
                                wC\<lparr>trace := trace wC @ [[''rm'', ''-rf'', path_str ed]],
                                    fs := remove (fs wC) ed,
                                    out := out wC @ [MImportComplete, MNextSteps, MNextStep1, MNextStep2]\<rparr>)))"
            by (simp add: restore_from_def Let_def exec read_file_def print_info_def manifest_get_apply
                split: sum.splits)
          show ?thesis
          proof (cases rc)
            case (Inl e)
            with res b show ?thesis
              by (rule_tac x = "?info @ msB" in exI, rule_tac x = cps in exI,
                  rule_tac x = "[]" in exI, rule_tac x = "[]" in exI) simp
          next
            case rcr: (Inr u)
            show ?thesis
            proof (cases rv)
              case (Inl e)
              with rcr res b cc show ?thesis
                by (rule_tac x = "?info @ msB @ msC" in exI, rule_tac x = cps in exI,
                    rule_tac x = mid in exI, rule_tac x = "[]" in exI)
                   (auto split: if_splits)
            next
              case (Inr u')
              with rcr res b cc show ?thesis
                by (rule_tac x = "?info @ msB @ msC @ [MImportComplete, MNextSteps, MNextStep1, MNextStep2]" in exI,
                    rule_tac x = cps in exI, rule_tac x = mid in exI,
                    rule_tac x = "[[''rm'', ''-rf'', path_str ed]]" in exI)
                   (auto split: if_splits)
            qed
          qed
        qed
      qed
    qed
  qed
qed

lemma lookup_put_other_top:
  "put t (x # p) n = Some t' \<Longrightarrow> g \<noteq> x \<Longrightarrow> lookup t' (g # q) = lookup t (g # q)"
  by (cases t; cases p) (auto split: option.splits simp: update_conv')

lemma lookup_remove_other_top:
  "g \<noteq> x \<Longrightarrow> lookup (remove t (x # p)) (g # q) = lookup t (g # q)"
  by (cases t; cases p) (auto split: option.splits simp: update_conv' delete_conv')

lemma verify_checksum_ext:
  "verify_checksum P b w = (r, w') \<Longrightarrow>
     fs w' = fs w \<and> trace w' = trace w
     \<and> (\<exists>ms. out w' = out w @ ms \<and> (\<forall>m\<in>set ms. \<forall>k v. m \<noteq> MInfoLine k v))"
  by (auto simp: verify_checksum_def exec read_file_def
      split: if_splits option.splits node.splits list.splits)

lemma mkdir_exist_ok_ext:
  "mkdir_exist_ok (x # p) w = (r, w') \<Longrightarrow>
     out w' = out w \<and> trace w' = trace w
     \<and> (\<forall>g q. g \<noteq> x \<longrightarrow> lookup (fs w') (g # q) = lookup (fs w) (g # q))"
  by (auto simp: mkdir_exist_ok_def lookup_put_other_top split: option.splits node.splits)

lemma extract_archive_ext:
  "extract_archive P b (x # p) w = (r, w') \<Longrightarrow>
     out w' = out w \<and> trace w' = trace w
     \<and> (\<forall>g q. g \<noteq> x \<longrightarrow> lookup (fs w') (g # q) = lookup (fs w) (g # q))"
  by (auto simp: extract_archive_def exec read_file_def lookup_put_other_top
      split: option.splits node.splits)

lemma list_backup_dirs_ext:
  "list_backup_dirs ed w = (r, w') \<Longrightarrow>
     w' = w \<and> (\<forall>ds. r = Inr ds \<longrightarrow> (\<forall>d\<in>set ds. \<exists>root. d = ed @ [root]))"
  by (auto simp: list_backup_dirs_def exec iterdir_def split: option.splits node.splits)

lemma import_environment_cases:
  assumes run: "import_environment P b skip w = (r, w')"
  shows "(\<exists>ms. out w' = out w @ ms \<and> (\<forall>m\<in>set ms. \<forall>k v. m \<noteq> MInfoLine k v)
            \<and> trace w' = trace w \<and> r \<noteq> Inr True
            \<and> (\<forall>g q. g \<noteq> ''backups'' \<longrightarrow> lookup (fs w') (g # q) = lookup (fs w) (g # q)))
       \<or> (\<exists>w1 root ms. restore_from P [''backups'', ''restore_temp'']
                           [''backups'', ''restore_temp'', root] skip w1 = (r, w')
            \<and> out w1 = out w @ ms \<and> (\<forall>m\<in>set ms. \<forall>k v. m \<noteq> MInfoLine k v)
            \<and> trace w1 = trace w
            \<and> (\<forall>g q. g \<noteq> ''backups'' \<longrightarrow> lookup (fs w1) (g # q) = lookup (fs w) (g # q)))"
    (is "?early w' \<or> ?late")
proof (cases "lookup (fs w) b = None")
  case True
  with run show ?thesis by (auto simp: import_environment_def Let_def exec)
next
  case False
  let ?w0 = "w\<lparr>out := out w @ [MHeader ''Importing Local AI Package'']\<rparr>"
  obtain rv wV where v: "verify_checksum P b ?w0 = (rv, wV)"
    by (cases "verify_checksum P b ?w0")
  from verify_checksum_ext [OF v] obtain msV where
    V: "fs wV = fs w" "trace wV = trace w" "out wV = out w @ MHeader ''Importing Local AI Package'' # msV"
       "\<forall>m\<in>set msV. \<forall>k v. m \<noteq> MInfoLine k v" by auto
  show ?thesis
  proof (cases "rv = Inr True")
    case False
    with run \<open>lookup (fs w) b \<noteq> None\<close> v have "w' = wV" "r \<noteq> Inr True"
      by (auto simp: import_environment_def Let_def exec split: sum.splits)
    with V show ?thesis by auto
  next
    case True
    let ?w1 = "wV\<lparr>out := out wV @ [MExtracting]\<rparr>"
    obtain rm wM where m: "mkdir_exist_ok [''backups'', ''restore_temp''] ?w1 = (rm, wM)"
      by (cases "mkdir_exist_ok [''backups'', ''restore_temp''] ?w1")
    note M = mkdir_exist_ok_ext [OF m]
    obtain rx wX where x: "extract_archive P b [''backups'', ''restore_temp''] wM = (rx, wX)"
      by (cases "extract_archive P b [''backups'', ''restore_temp''] wM")
    note X = extract_archive_ext [OF x]
    obtain rl wL where l: "list_backup_dirs [''backups'', ''restore_temp''] wX = (rl, wL)"
      by (cases "list_backup_dirs [''backups'', ''restore_temp''] wX")
    note L = list_backup_dirs_ext [OF l]
    from run \<open>lookup (fs w) b \<noteq> None\<close> v True m x l have res:
      "(r, w') = (case rm of Inl e \<Rightarrow> (Inl e, wM) | Inr u \<Rightarrow>
                   (case rx of Inl e \<Rightarrow> (Inl e, wX) | Inr u \<Rightarrow>
                     (case rl of Inl e \<Rightarrow> (Inl e, wL) | Inr ds \<Rightarrow>
                        (case ds of [] \<Rightarrow> (Inr False, wL\<lparr>out := out wL @ [MInvalidStructure]\<rparr>)
                          | rd # _ \<Rightarrow> restore_from P [''backups'', ''restore_temp''] rd skip wL))))"
      by (simp add: import_environment_def Let_def exec backup_dir_def split: sum.splits list.splits)
    have eM: "?early wM" if "r \<noteq> Inr True" "w' = wM"
      using V M that
      by (rule_tac x = "MHeader ''Importing Local AI Package'' # msV @ [MExtracting]" in exI) simp
    have eX: "?early wX" if "r \<noteq> Inr True" "w' = wX"
      using V M X that
      by (rule_tac x = "MHeader ''Importing Local AI Package'' # msV @ [MExtracting]" in exI) simp
    have eL: "?early (wL\<lparr>out := out wL @ [MInvalidStructure]\<rparr>)"
      if "r \<noteq> Inr True" "w' = wL\<lparr>out := out wL @ [MInvalidStructure]\<rparr>"
      using V M X L that
      by (rule_tac x = "MHeader ''Importing Local AI Package'' # msV @ [MExtracting, MInvalidStructure]" in exI) simp
    show ?thesis
    proof (cases rm)
      case (Inl e)
      with res eM show ?thesis by auto
    next
      case rmr: (Inr u)
      show ?thesis
      proof (cases rx)
        case (Inl e)
        with rmr res eX show ?thesis by auto
      next
        case rxr: (Inr u')
        show ?thesis
        proof (cases rl)
          case (Inl e)
          with rmr rxr res eX L show ?thesis by auto
        next
          case rlr: (Inr ds)
          show ?thesis
          proof (cases ds)
            case Nil
            with rmr rxr rlr res eL show ?thesis by auto
          next
            case (Cons rd rest)
            with rlr L obtain root where rd: "rd = [''backups'', ''restore_temp'', root]" by auto
            from Cons rmr rxr rlr res rd have
              "restore_from P [''backups'', ''restore_temp''] [''backups'', ''restore_temp'', root] skip wL = (r, w')"
              by simp
            with V M X L show ?thesis
              by (intro disjI2, rule_tac x = wL in exI, rule_tac x = root in exI,
                  rule_tac x = "MHeader ''Importing Local AI Package'' # msV @ [MExtracting]" in exI) simp
          qed
        qed
      qed
    qed
  qed
qed

lemma take2_eq: "(take 2 xs = [a, b]) = (\<exists>r. xs = a # b # r)"
  by (cases xs; cases "tl xs") (auto simp: numeral_2_eq_2)

lemma take1_eq: "(take 1 xs = [a]) = (\<exists>r. xs = a # r)"
  by (cases xs) auto

lemma cp_not_others:
  "is_cp x \<Longrightarrow> x \<noteq> stop_cmd \<and> \<not> is_volume_import x \<and> \<not> is_service_start x"
  by (auto simp: is_cp_def stop_cmd_def is_volume_import_def is_service_start_def take2_eq take1_eq)

lemma volume_import_not_others:
  "is_volume_import x \<Longrightarrow> x \<noteq> stop_cmd \<and> \<not> is_service_start x"
  by (auto simp: stop_cmd_def is_volume_import_def is_service_start_def take2_eq take1_eq)

lemma rm_not_others:
  "[''rm'', ''-rf'', s] \<noteq> stop_cmd \<and> \<not> is_volume_import [''rm'', ''-rf'', s]
     \<and> \<not> is_service_start [''rm'', ''-rf'', s]"
  by (auto simp: stop_cmd_def is_volume_import_def is_service_start_def)

lemma stop_not_others: "\<not> is_volume_import stop_cmd \<and> \<not> is_service_start stop_cmd"
  by (auto simp: stop_cmd_def is_volume_import_def is_service_start_def)

lemma trace_shape_props:
  assumes cps: "\<forall>x\<in>set cps. is_cp x"
    and mid: "mid = [] \<or> (\<not> skip \<and> (\<exists>vols. mid = stop_cmd # vols \<and> (\<forall>x\<in>set vols. is_volume_import x)))"
    and fin: "fin = [] \<or> fin = [[''rm'', ''-rf'', s]]"
  shows "(skip \<longrightarrow> stop_cmd \<notin> set (cps @ mid @ fin))
     \<and> (\<forall>pre x post. cps @ mid @ fin = pre @ x # post \<and> is_volume_import x \<longrightarrow> stop_cmd \<in> set pre)
     \<and> (\<forall>x\<in>set (cps @ mid @ fin). \<not> is_service_start x)"
proof (intro conjI)
  have c1: "stop_cmd \<notin> set cps" using cps cp_not_others by blast
  have f1: "stop_cmd \<notin> set fin" using fin rm_not_others [of s] by (metis empty_iff empty_set set_ConsD)
  show "skip \<longrightarrow> stop_cmd \<notin> set (cps @ mid @ fin)"
    using c1 f1 mid by auto
  have nf: "\<forall>y\<in>set fin. \<not> is_volume_import y \<and> \<not> is_service_start y"
    using fin rm_not_others [of s] by (metis empty_iff empty_set set_ConsD)
  have nc: "\<forall>y\<in>set cps. \<not> is_volume_import y \<and> \<not> is_service_start y"
    using cps cp_not_others by blast
  have nm: "\<forall>y\<in>set mid. \<not> is_service_start y"
    using mid stop_not_others volume_import_not_others by (metis empty_iff empty_set set_ConsD)
  show "\<forall>x\<in>set (cps @ mid @ fin). \<not> is_service_start x"
    using nf nc nm by simp blast
  show "\<forall>pre x post. cps @ mid @ fin = pre @ x # post \<and> is_volume_import x \<longrightarrow> stop_cmd \<in> set pre"
  proof (intro allI impI, elim conjE)
    fix pre x post
    assume eq: "cps @ mid @ fin = pre @ x # post" and vi: "is_volume_import x"
    have "x \<in> set (pre @ x # post)" by simp
    with eq have "x \<in> set (cps @ mid @ fin)" by simp
    with vi nf nc have "x \<in> set mid" by auto
    with mid obtain vols where m: "mid = stop_cmd # vols" by auto
    from eq m have eq': "cps @ stop_cmd # (vols @ fin) = pre @ x # post" by simp
    from eq' obtain us where
      "(cps = pre @ us \<and> us @ stop_cmd # (vols @ fin) = x # post)
       \<or> (cps @ us = pre \<and> stop_cmd # (vols @ fin) = us @ x # post)"
      unfolding append_eq_append_conv2 by blast
    then show "stop_cmd \<in> set pre"
    proof
      assume a: "cps = pre @ us \<and> us @ stop_cmd # (vols @ fin) = x # post"
      show ?thesis
      proof (cases us)
        case Nil
        with a have "x = stop_cmd" by simp
        with vi stop_not_others show ?thesis by simp
      next
        case (Cons u us')
        with a have "x = u" "u \<in> set cps" by auto
        with vi nc show ?thesis by blast
      qed
    next
      assume b: "cps @ us = pre \<and> stop_cmd # (vols @ fin) = us @ x # post"
      show ?thesis
      proof (cases us)
        case Nil
        with b have "x = stop_cmd" by simp
        with vi stop_not_others show ?thesis by simp
      next
        case (Cons u us')
        with b have "u = stop_cmd" by simp
        with Cons b show ?thesis by auto
      qed
    qed
  qed
qed

text \<open>
  C9. In every run of the import, whether it returns or raises: with \<open>skip_volumes\<close> the stop
  command is not issued; a command of a volume import (\<open>docker volume create\<close>, \<open>docker run\<close>)
  comes after the stop command, which \<open>subprocess.run\<close> has waited for; no command starts
  services; and a run without \<open>skip_volumes\<close> that returns \<open>True\<close> and has printed the format
  \<open>full\<close> of its manifest has issued the stop command.
\<close>

theorem import_stops_services_before_volumes:
  assumes run: "import_environment P backup_file skip_volumes w = (r, w')"
  shows "\<exists>ms tr. out w' = out w @ ms \<and> trace w' = trace w @ tr
     \<and> (skip_volumes \<longrightarrow> stop_cmd \<notin> set tr)
     \<and> (\<forall>pre x post. tr = pre @ x # post \<and> is_volume_import x \<longrightarrow> stop_cmd \<in> set pre)
     \<and> (\<forall>x\<in>set tr. \<not> is_service_start x)
     \<and> (\<not> skip_volumes \<and> r = Inr True \<and> MInfoLine ''format'' (Some (JStr ''full'')) \<in> set ms
          \<longrightarrow> stop_cmd \<in> set tr)"
proof -
  from import_environment_cases [OF run] show ?thesis
  proof
    assume "\<exists>ms. out w' = out w @ ms \<and> (\<forall>m\<in>set ms. \<forall>k v. m \<noteq> MInfoLine k v)
            \<and> trace w' = trace w \<and> r \<noteq> Inr True
            \<and> (\<forall>g q. g \<noteq> ''backups'' \<longrightarrow> lookup (fs w') (g # q) = lookup (fs w) (g # q))"
    then obtain ms where "out w' = out w @ ms" "trace w' = trace w" "r \<noteq> Inr True" by blast
    then show ?thesis
      by (rule_tac x = ms in exI, rule_tac x = "[]" in exI) simp
  next
    assume "\<exists>w1 root ms. restore_from P [''backups'', ''restore_temp'']
                           [''backups'', ''restore_temp'', root] skip_volumes w1 = (r, w')
            \<and> out w1 = out w @ ms \<and> (\<forall>m\<in>set ms. \<forall>k v. m \<noteq> MInfoLine k v)
            \<and> trace w1 = trace w
            \<and> (\<forall>g q. g \<noteq> ''backups'' \<longrightarrow> lookup (fs w1) (g # q) = lookup (fs w) (g # q))"
    then obtain w1 root ms1 where
      rf: "restore_from P [''backups'', ''restore_temp''] [''backups'', ''restore_temp'', root]
             skip_volumes w1 = (r, w')"
      and o1: "out w1 = out w @ ms1" and n1: "\<forall>m\<in>set ms1. \<forall>k v. m \<noteq> MInfoLine k v"
      and t1: "trace w1 = trace w" by blast
    from restore_from_shape [OF rf] obtain ms cps mid fin where
      o: "out w' = out w1 @ ms" and t: "trace w' = trace w1 @ cps @ mid @ fin"
      and cps: "\<forall>x\<in>set cps. is_cp x"
      and mid: "mid = [] \<or> (\<not> skip_volumes \<and> (\<exists>vols. mid = stop_cmd # vols
                  \<and> (\<forall>x\<in>set vols. is_volume_import x)))"
      and fin: "fin = [] \<or> fin = [[''rm'', ''-rf'', path_str [''backups'', ''restore_temp'']]]"
      and iss: "\<not> skip_volumes \<and> r = Inr True
                 \<and> MInfoLine ''format'' (Some (JStr ''full'')) \<in> set ms \<longrightarrow> mid \<noteq> []"
      by blast
    note props = trace_shape_props [OF cps mid fin]
    have issued: "\<not> skip_volumes \<and> r = Inr True
         \<and> MInfoLine ''format'' (Some (JStr ''full'')) \<in> set (ms1 @ ms)
          \<longrightarrow> stop_cmd \<in> set (cps @ mid @ fin)"
      using iss n1 mid by auto
    from o o1 t t1 props issued show ?thesis
      by (rule_tac x = "ms1 @ ms" in exI, rule_tac x = "cps @ mid @ fin" in exI) simp
  qed
qed

theorem import_stops_services_before_volumes_witness:
  "fst (import_environment demo_platform [''backups'', ''good.tar.gz''] False demo_world) = Inr True
   \<and> stop_cmd \<in> set (trace (snd (import_environment demo_platform
                                    [''backups'', ''good.tar.gz''] False demo_world)))"
proof -
  let ?R = "import_environment demo_platform [''backups'', ''good.tar.gz''] False demo_world"
  have e: "?R = (fst ?R, snd ?R)" by simp
  have r: "fst ?R = Inr True"
    by (simp add: import_defs io_defs str_defs demo_defs)
  have m: "MInfoLine ''format'' (Some (JStr ''full'')) \<in> set (out (snd ?R))"
    by (simp add: import_defs io_defs str_defs demo_defs)
  have o: "out demo_world = []" by (simp add: demo_defs)
  from import_stops_services_before_volumes [OF e] obtain ms tr where
    "out (snd ?R) = out demo_world @ ms" "trace (snd ?R) = trace demo_world @ tr"
    "\<not> False \<and> fst ?R = Inr True \<and> MInfoLine ''format'' (Some (JStr ''full'')) \<in> set ms
       \<longrightarrow> stop_cmd \<in> set tr"
    by blast
  with r m o show ?thesis by simp
qed


subsection \<open>The configuration files of an import\<close>





subsection \<open>The export: its archive, its manifest and its volumes\<close>




















end
